theory Spec2Isabelle
  imports Main
begin

section \<open>Incremental search (lib/ace/incremental_search.js)\<close>

text \<open>
  A shallow embedding of the \<^verbatim>\<open>IncrementalSearch\<close> object of
  \<^verbatim>\<open>incremental_search.js\<close>. The object's fields, the editors it can be attached to
  and the console are one explicit state record; each method takes the state and returns
  its completion (a value or a thrown \<^verbatim>\<open>TypeError\<close>) together with the state it leaves.
\<close>

subsection \<open>Positions, ranges, errors\<close>

text \<open>A position is the \<^verbatim>\<open>{row, column}\<close> object of the editor.\<close>

record pos =
  row :: nat
  column :: nat

text \<open>\<^verbatim>\<open>Range\<close> objects: a start and an end position.\<close>

record Range =
  range_start :: pos
  range_end :: pos

text \<open>\<^verbatim>\<open>Range.fromPoints(start, end)\<close> builds the range with these two endpoints, in the
  order given.\<close>

definition fromPoints :: "pos \<Rightarrow> pos \<Rightarrow> Range" where
  "fromPoints s e = \<lparr>range_start = s, range_end = e\<rparr>"

text \<open>Reading a property of \<^verbatim>\<open>undefined\<close> throws a \<^verbatim>\<open>TypeError\<close>.\<close>

datatype js_error = TypeError

type_synonym 'a completion = "js_error + 'a"

subsection \<open>The editor\<close>

text \<open>The keyboard handlers on an editor's \<^verbatim>\<open>keyBinding\<close> stack: the handler the
  constructor creates for this object (\<^verbatim>\<open>this.$keyboardHandler\<close>) and the host's own.\<close>

datatype handler = ISearchKbd | HostHandler nat

type_synonym regexp = string

text \<open>
  The part of an editor the methods touch: the cursor, the selection
  (\<^verbatim>\<open>selection.isEmpty()\<close>, and how often \<^verbatim>\<open>clearSelection()\<close> ran), the session's
  \<^verbatim>\<open>$emacsMark\<close> (as its truth value), the session's highlight (\<open>None\<close> is \<^verbatim>\<open>null\<close>), the
  number of \<^verbatim>\<open>renderer.updateBackMarkers()\<close> calls, the keyboard handler stack (top
  first), the command line (\<open>None\<close> when the editor has no \<^verbatim>\<open>cmdLine\<close>, else its value)
  and the document.
\<close>

record editor =
  cursor :: pos
  selection_isEmpty :: bool
  clearSelection_calls :: nat
  emacsMark :: bool
  highlight :: "regexp option"
  backMarker_updates :: nat
  handlers :: "handler list"
  cmdLine :: "string option"
  doc_lines :: "string list"

text \<open>Modelled from the spec: \<^verbatim>\<open>editor.getCursorPosition()\<close> is not among the sources;
  the spec's \<^verbatim>\<open>cursorPosition()\<close> reads the surface's cursor.\<close>

definition getCursorPosition :: "editor \<Rightarrow> pos" where
  "getCursorPosition ed = cursor ed"

text \<open>Modelled from the spec: \<^verbatim>\<open>editor.moveCursorToPosition(pos)\<close> is not among the
  sources; the spec's \<^verbatim>\<open>moveCursorTo(Position)\<close> puts the cursor there.\<close>

definition moveCursorToPosition :: "pos \<Rightarrow> editor \<Rightarrow> editor" where
  "moveCursorToPosition p ed = ed\<lparr>cursor := p\<rparr>"

text \<open>Modelled from the spec: \<^verbatim>\<open>editor.clearSelection()\<close> is not among the sources;
  after the spec's \<^verbatim>\<open>clearSelection()\<close> the surface reports an empty selection. The call
  is counted.\<close>

definition clearSelection :: "editor \<Rightarrow> editor" where
  "clearSelection ed =
     ed\<lparr>selection_isEmpty := True, clearSelection_calls := Suc (clearSelection_calls ed)\<rparr>"

text \<open>Modelled from the spec: \<^verbatim>\<open>session.highlight(re)\<close> is not among the sources; the
  spec's \<^verbatim>\<open>highlight(patternOrNull)\<close> sets or clears the live search-match decoration.\<close>

definition session_highlight :: "regexp option \<Rightarrow> editor \<Rightarrow> editor" where
  "session_highlight r ed = ed\<lparr>highlight := r\<rparr>"

text \<open>Modelled from the spec: \<^verbatim>\<open>renderer.updateBackMarkers()\<close> is not among the
  sources; the spec's \<^verbatim>\<open>forceHighlightRedraw()\<close> redraws the highlight layer. The call is
  counted.\<close>

definition updateBackMarkers :: "editor \<Rightarrow> editor" where
  "updateBackMarkers ed = ed\<lparr>backMarker_updates := Suc (backMarker_updates ed)\<rparr>"

text \<open>Modelled from the spec: \<^verbatim>\<open>keyBinding.addKeyboardHandler(kb)\<close> is not among the
  sources; the spec's \<^verbatim>\<open>pushInputOverlay(overlay)\<close> pushes onto a LIFO stack whose top
  receives the keystrokes first.\<close>

definition addKeyboardHandler :: "handler \<Rightarrow> editor \<Rightarrow> editor" where
  "addKeyboardHandler kb ed = ed\<lparr>handlers := kb # handlers ed\<rparr>"

text \<open>Modelled from the spec: \<^verbatim>\<open>keyBinding.removeKeyboardHandler(kb)\<close> is not among the
  sources; the spec's \<^verbatim>\<open>popInputOverlay(overlay)\<close> takes that overlay off the stack (its
  topmost occurrence).\<close>

definition removeKeyboardHandler :: "handler \<Rightarrow> editor \<Rightarrow> editor" where
  "removeKeyboardHandler kb ed = ed\<lparr>handlers := remove1 kb (handlers ed)\<rparr>"

text \<open>Modelled from the spec: \<^verbatim>\<open>cmdLine.setValue(msg, 1)\<close> is not among the sources; the
  spec's \<^verbatim>\<open>emitStatus(text)\<close> shows the text in the status sink.\<close>

definition cmdLine_setValue :: "string \<Rightarrow> editor \<Rightarrow> editor" where
  "cmdLine_setValue msg ed = ed\<lparr>cmdLine := Some msg\<rparr>"

subsection \<open>The search object and its state\<close>

text \<open>
  \<^verbatim>\<open>this.$options\<close>. The constructor sets \<^verbatim>\<open>wrap\<close> and \<^verbatim>\<open>skipCurrent\<close> only, so the
  other properties start out \<^verbatim>\<open>undefined\<close> (\<open>None\<close>); \<^verbatim>\<open>backwards\<close> is only ever tested
  for truth and is kept as its truth value.
\<close>

record search_options =
  wrap :: bool
  skipCurrent :: bool
  needle :: "string option"
  backwards :: bool
  start :: "pos option"
  re :: "regexp option"

text \<open>
  The state: the fields of the \<^verbatim>\<open>IncrementalSearch\<close> object (\<^verbatim>\<open>$editor\<close> is a reference
  into the store of editors), the store of editors, and the lines written by
  \<^verbatim>\<open>console.log\<close>, oldest first.
\<close>

record state =
  editor :: "nat option"
  startPos :: "pos option"
  currentPos :: "pos option"
  prevNeedle :: "string option"
  options :: search_options
  editors :: "nat \<Rightarrow> editor"
  console :: "string list"

text \<open>
  \<^verbatim>\<open>Search.prototype.find\<close> (\<^verbatim>\<open>./search\<close>) is not among the sources. It is a parameter of
  the methods that call it: from the editor (its session) and the options it gives the
  match or nothing, and the pattern it leaves in \<^verbatim>\<open>options.re\<close>.
\<close>

type_synonym finder = "editor \<Rightarrow> search_options \<Rightarrow> Range option \<times> regexp option"

text \<open>The argument of \<^verbatim>\<open>next\<close>: both properties by their truth value, \<open>None\<close> when the
  argument is omitted.\<close>

record next_options =
  opt_backwards :: bool
  useCurrentOrPrevSearch :: bool

text \<open>\<^verbatim>\<open>function IncrementalSearch()\<close>: the state after the constructor, over a store of
  editors.\<close>

definition IncrementalSearch :: "(nat \<Rightarrow> editor) \<Rightarrow> state" where
  "IncrementalSearch eds =
     \<lparr>editor = None, startPos = None, currentPos = None, prevNeedle = None,
      options = \<lparr>wrap = False, skipCurrent = False, needle = None, backwards = False,
                 start = None, re = None\<rparr>,
      editors = eds, console = []\<rparr>"

text \<open>\<^verbatim>\<open>x || ''\<close> on a string or \<^verbatim>\<open>undefined\<close>.\<close>

definition or_empty :: "string option \<Rightarrow> string" where
  "or_empty x = (case x of None \<Rightarrow> [] | Some s \<Rightarrow> s)"

text \<open>\<^verbatim>\<open>'...' + x\<close> on a string or \<^verbatim>\<open>undefined\<close>.\<close>

definition needle_text :: "string option \<Rightarrow> string" where
  "needle_text x = (case x of None \<Rightarrow> ''undefined'' | Some s \<Rightarrow> s)"

definition upd_editor :: "nat \<Rightarrow> (editor \<Rightarrow> editor) \<Rightarrow> state \<Rightarrow> state" where
  "upd_editor e f w = w\<lparr>editors := (editors w)(e := f (editors w e))\<rparr>"

text \<open>\<^verbatim>\<open>this.message\<close>: to the command line when there is an editor with one, else to the
  console.\<close>

definition message :: "string \<Rightarrow> state \<Rightarrow> state" where
  "message msg w =
     (case editor w of
        None \<Rightarrow> w\<lparr>console := console w @ [msg]\<rparr>
      | Some e \<Rightarrow>
          (case cmdLine (editors w e) of
             None \<Rightarrow> w\<lparr>console := console w @ [msg]\<rparr>
           | Some _ \<Rightarrow> upd_editor e (cmdLine_setValue msg) w))"

text \<open>\<^verbatim>\<open>this.selectionFix\<close>.\<close>

definition selectionFix :: "nat \<Rightarrow> state \<Rightarrow> state" where
  "selectionFix e w =
     (if selection_isEmpty (editors w e) \<and> \<not> emacsMark (editors w e)
      then upd_editor e clearSelection w else w)"

text \<open>The status line both \<^verbatim>\<open>activate\<close> and \<^verbatim>\<open>highlightAndFindWithNeedle\<close> start with.\<close>

definition isearch_msg :: "search_options \<Rightarrow> string" where
  "isearch_msg opts =
     (if backwards opts then ''reverse-'' else []) @ ''isearch: '' @ needle_text (needle opts)"

text \<open>\<^verbatim>\<open>this.activate\<close>, on the editor with reference \<open>e\<close>.\<close>

definition activate :: "nat \<Rightarrow> bool \<Rightarrow> state \<Rightarrow> state" where
  "activate e bw w =
     (let w1 = w\<lparr>editor := Some e\<rparr>;
          p = getCursorPosition (editors w1 e);
          w2 = w1\<lparr>startPos := Some p, currentPos := Some p\<rparr>;
          w3 = w2\<lparr>options := (options w2)\<lparr>needle := Some [], backwards := bw\<rparr>\<rparr>;
          w4 = upd_editor e (addKeyboardHandler ISearchKbd) w3;
          w5 = selectionFix e w4
      in message (isearch_msg (options w5)) w5)"

text \<open>
  \<^verbatim>\<open>this.cancelSearch\<close>. Without an editor the first use of \<^verbatim>\<open>e\<close> throws; an
  \<^verbatim>\<open>undefined\<close> position handed to the editor or to \<^verbatim>\<open>Range.fromPoints\<close> throws as well.
\<close>

definition cancelSearch :: "bool \<Rightarrow> state \<Rightarrow> Range completion \<times> state" where
  "cancelSearch reset w =
     (let w1 = w\<lparr>prevNeedle := needle (options w)\<rparr>;
          w2 = w1\<lparr>options := (options w1)\<lparr>needle := Some []\<rparr>\<rparr>
      in case editor w2 of
           None \<Rightarrow> (Inl TypeError, w2)
         | Some e \<Rightarrow>
             (case (if reset
                    then (case startPos w2 of
                            None \<Rightarrow> None
                          | Some sp \<Rightarrow>
                              Some ((upd_editor e (moveCursorToPosition sp) w2)
                                      \<lparr>currentPos := Some sp\<rparr>))
                    else Some w2) of
                None \<Rightarrow> (Inl TypeError, w2)
              | Some w3 \<Rightarrow>
                  (let w4 = upd_editor e (session_highlight None) w3;
                       w5 = upd_editor e updateBackMarkers w4
                   in case currentPos w5 of
                        None \<Rightarrow> (Inl TypeError, w5)
                      | Some cp \<Rightarrow> (Inr (fromPoints cp cp), w5))))"

text \<open>\<^verbatim>\<open>this.deactivate\<close>.\<close>

definition deactivate :: "bool \<Rightarrow> state \<Rightarrow> unit completion \<times> state" where
  "deactivate reset w =
     (case cancelSearch reset w of
        (Inl err, w1) \<Rightarrow> (Inl err, w1)
      | (Inr _, w1) \<Rightarrow>
          (case editor w1 of
             None \<Rightarrow> (Inl TypeError, w1)
           | Some e \<Rightarrow>
               (Inr (), message [] (upd_editor e (removeKeyboardHandler ISearchKbd) w1))))"

text \<open>
  \<^verbatim>\<open>this.highlightAndFindWithNeedle\<close>. The update function gets the object (\<^verbatim>\<open>this\<close>) and
  the needle and gives a string, on which the outer \<^verbatim>\<open>|| ''\<close> changes nothing. The value
  returned is \<open>None\<close> for \<^verbatim>\<open>null\<close> and for a search that found nothing.
\<close>

definition highlightAndFindWithNeedle ::
  "finder \<Rightarrow> bool \<Rightarrow> (state \<Rightarrow> string \<Rightarrow> string) option \<Rightarrow> state
     \<Rightarrow> Range option completion \<times> state" where
  "highlightAndFindWithNeedle find_fn moveToNext needleUpdateFunc w =
     (case editor w of
        None \<Rightarrow> (Inr None, w)
      | Some e \<Rightarrow>
          (let w1 = (case needleUpdateFunc of
                       None \<Rightarrow> w
                     | Some f \<Rightarrow>
                         w\<lparr>options := (options w)
                              \<lparr>needle := Some (f w (or_empty (needle (options w))))\<rparr>\<rparr>)
           in case needle (options w1) of
                None \<Rightarrow> (Inl TypeError, w1)
              | Some n \<Rightarrow>
                  if length n = 0
                  then (case cancelSearch True w1 of
                          (Inl err, w') \<Rightarrow> (Inl err, w')
                        | (Inr r, w') \<Rightarrow> (Inr (Some r), w'))
                  else
                    (let w2 = w1\<lparr>options := (options w1)\<lparr>start := currentPos w1\<rparr>\<rparr>;
                         (found0, re') = find_fn (editors w2 e) (options w2);
                         w3 = w2\<lparr>options := (options w2)\<lparr>re := re'\<rparr>\<rparr>
                     in case found0 of
                          None \<Rightarrow>
                            (Inr None,
                             message (isearch_msg (options w3) @ '' (not found)'') w3)
                        | Some f0 \<Rightarrow>
                            (let found = (if backwards (options w3)
                                          then fromPoints (range_end f0) (range_start f0)
                                          else f0);
                                 w4 = upd_editor e (moveCursorToPosition (range_end found)) w3;
                                 w5 = (if moveToNext
                                       then w4\<lparr>currentPos := Some (range_end found)\<rparr>
                                       else w4);
                                 w6 = upd_editor e (session_highlight (re (options w5))) w5;
                                 w7 = upd_editor e updateBackMarkers w6
                             in (Inr (Some found), message (isearch_msg (options w7)) w7)))))"

text \<open>\<^verbatim>\<open>this.addChar\<close>.\<close>

definition addChar :: "finder \<Rightarrow> string \<Rightarrow> state \<Rightarrow> Range option completion \<times> state" where
  "addChar find_fn c w =
     highlightAndFindWithNeedle find_fn False (Some (\<lambda>this needle. needle @ c)) w"

text \<open>\<^verbatim>\<open>this.removeChar\<close>.\<close>

definition removeChar :: "finder \<Rightarrow> state \<Rightarrow> Range option completion \<times> state" where
  "removeChar find_fn w =
     highlightAndFindWithNeedle find_fn False
       (Some (\<lambda>this needle. if length needle > 0
                             then take (length needle - 1) needle else needle)) w"

text \<open>\<^verbatim>\<open>options = options || {}\<close> and the two properties \<^verbatim>\<open>next\<close> reads from it.\<close>

definition get_backwards :: "next_options option \<Rightarrow> bool" where
  "get_backwards opts = (case opts of None \<Rightarrow> False | Some o1 \<Rightarrow> opt_backwards o1)"

definition get_useCurrentOrPrevSearch :: "next_options option \<Rightarrow> bool" where
  "get_useCurrentOrPrevSearch opts =
     (case opts of None \<Rightarrow> False | Some o1 \<Rightarrow> useCurrentOrPrevSearch o1)"

text \<open>\<^verbatim>\<open>this.next\<close>. Its first use of \<^verbatim>\<open>this.$editor\<close> comes before the guard of
  \<^verbatim>\<open>highlightAndFindWithNeedle\<close>.\<close>

definition next_search ::
  "finder \<Rightarrow> next_options option \<Rightarrow> state \<Rightarrow> Range option completion \<times> state" where
  "next_search find_fn opts w =
     (let w1 = w\<lparr>options := (options w)\<lparr>backwards := get_backwards opts\<rparr>\<rparr>
      in case editor w1 of
           None \<Rightarrow> (Inl TypeError, w1)
         | Some e \<Rightarrow>
             (let w2 = w1\<lparr>currentPos := Some (getCursorPosition (editors w1 e))\<rparr>
              in highlightAndFindWithNeedle find_fn True
                   (Some (\<lambda>this needle.
                            if get_useCurrentOrPrevSearch opts \<and> length needle = 0
                            then or_empty (prevNeedle this) else needle)) w2))"

text \<open>What the status sink shows last: the command line's value when the attached editor
  has one, else the last line on the console.\<close>

definition status_text :: "state \<Rightarrow> string option" where
  "status_text w =
     (let logged = (case rev (console w) of [] \<Rightarrow> None | l # _ \<Rightarrow> Some l)
      in case editor w of
           None \<Rightarrow> logged
         | Some e \<Rightarrow> (case cmdLine (editors w e) of None \<Rightarrow> logged | Some v \<Rightarrow> Some v))"

subsection \<open>A sample buffer and a sample finder\<close>

text \<open>
  Concrete runs need an editor and something to put for \<^verbatim>\<open>find\<close>. The editor holds the
  one line \<^verbatim>\<open>abcabcabc\<close>, with the cursor at its start and a command line. The sample
  finder looks on the first line only: forwards for the first occurrence at or after the
  start column, backwards for the last occurrence that ends at or before it; the pattern
  it leaves is the needle.
\<close>

definition p0 :: "nat \<Rightarrow> pos" where
  "p0 c = \<lparr>row = 0, column = c\<rparr>"

definition ed0 :: editor where
  "ed0 = \<lparr>cursor = p0 0, selection_isEmpty = True, clearSelection_calls = 0,
          emacsMark = False, highlight = None, backMarker_updates = 0,
          handlers = [HostHandler 0], cmdLine = Some [], doc_lines = [''abcabcabc'']\<rparr>"

fun scan_fwd :: "string \<Rightarrow> string \<Rightarrow> nat \<Rightarrow> nat \<Rightarrow> nat option" where
  "scan_fwd n [] i from = None"
| "scan_fwd n (x # xs) i from =
     (if from \<le> i \<and> take (length n) (x # xs) = n then Some i
      else scan_fwd n xs (i + 1) from)"

fun scan_bwd :: "string \<Rightarrow> string \<Rightarrow> nat \<Rightarrow> nat \<Rightarrow> nat option \<Rightarrow> nat option" where
  "scan_bwd n [] i lim best = best"
| "scan_bwd n (x # xs) i lim best =
     scan_bwd n xs (i + 1) lim
       (if i + length n \<le> lim \<and> take (length n) (x # xs) = n then Some i else best)"

definition sample_find :: finder where
  "sample_find ed opts =
     (case needle opts of
        None \<Rightarrow> (None, None)
      | Some n \<Rightarrow>
          (case start opts of
             None \<Rightarrow> (None, Some n)
           | Some p \<Rightarrow>
               (let l = (case doc_lines ed of [] \<Rightarrow> [] | l1 # _ \<Rightarrow> l1);
                    hit = (if backwards opts then scan_bwd n l 0 (column p) None
                           else scan_fwd n l 0 (column p))
                in (case hit of
                      None \<Rightarrow> (None, Some n)
                    | Some i \<Rightarrow> (Some (fromPoints (p0 i) (p0 (i + length n))), Some n)))))"

text \<open>The runs: a new object, activated forwards on editor 0; \<^verbatim>\<open>a\<close> typed; then \<^verbatim>\<open>b\<close>; or
  instead \<^verbatim>\<open>x\<close>, which is not found; \<^verbatim>\<open>next\<close> after \<^verbatim>\<open>ab\<close>; the \<^verbatim>\<open>ab\<close> search deactivated, with and without
  reset; and activated again after that. One more editor has a selection that is not
  empty.\<close>

definition ed_sel :: editor where
  "ed_sel = ed0\<lparr>selection_isEmpty := False\<rparr>"

definition s_sel :: state where
  "s_sel = IncrementalSearch (\<lambda>_. ed_sel)"

definition s_new :: state where
  "s_new = IncrementalSearch (\<lambda>_. ed0)"

definition s_active :: state where
  "s_active = activate 0 False s_new"

definition s_a :: state where
  "s_a = snd (addChar sample_find ''a'' s_active)"

definition s_ab :: state where
  "s_ab = snd (addChar sample_find ''b'' s_a)"

definition s_ax :: state where
  "s_ax = snd (addChar sample_find ''x'' s_a)"

definition s_next :: state where
  "s_next = snd (next_search sample_find None s_ab)"

definition s_off :: state where
  "s_off = snd (deactivate True s_ab)"

definition s_again :: state where
  "s_again = activate 0 False (snd (deactivate False s_ab))"

section \<open>Basic facts\<close>

lemmas editor_defs = getCursorPosition_def moveCursorToPosition_def clearSelection_def
  session_highlight_def updateBackMarkers_def addKeyboardHandler_def
  removeKeyboardHandler_def cmdLine_setValue_def

lemmas model_defs = activate_def addChar_def removeChar_def next_search_def deactivate_def
  cancelSearch_def highlightAndFindWithNeedle_def message_def selectionFix_def upd_editor_def
  isearch_msg_def needle_text_def or_empty_def editor_defs IncrementalSearch_def
  fromPoints_def get_backwards_def get_useCurrentOrPrevSearch_def sample_find_def ed0_def
  p0_def Let_def

subsection \<open>The status message touches the status sink only\<close>

lemma message_object [simp]:
  "editor (message m w) = editor w"
  "startPos (message m w) = startPos w"
  "currentPos (message m w) = currentPos w"
  "prevNeedle (message m w) = prevNeedle w"
  "options (message m w) = options w"
  by (simp_all add: message_def upd_editor_def split: option.splits)

lemma message_editor [simp]:
  "cursor (editors (message m w) e) = cursor (editors w e)"
  "selection_isEmpty (editors (message m w) e) = selection_isEmpty (editors w e)"
  "clearSelection_calls (editors (message m w) e) = clearSelection_calls (editors w e)"
  "emacsMark (editors (message m w) e) = emacsMark (editors w e)"
  "highlight (editors (message m w) e) = highlight (editors w e)"
  "backMarker_updates (editors (message m w) e) = backMarker_updates (editors w e)"
  "handlers (editors (message m w) e) = handlers (editors w e)"
  "doc_lines (editors (message m w) e) = doc_lines (editors w e)"
  by (simp_all add: message_def upd_editor_def cmdLine_setValue_def split: option.splits)

lemma status_text_message [simp]: "status_text (message m w) = Some m"
  by (simp add: status_text_def message_def upd_editor_def cmdLine_setValue_def
      split: option.splits)

subsection \<open>The three ways through \<^verbatim>\<open>highlightAndFindWithNeedle\<close>\<close>

text \<open>With an editor attached and an update function whose result \<open>q\<close> is empty, the
  method cancels with reset; \<open>find_fn\<close> does not occur in the result.\<close>

lemma hf_reset:
  assumes "editor w = Some e" and "startPos w = Some sp"
    and "f w (or_empty (needle (options w))) = []"
  shows "highlightAndFindWithNeedle find_fn m (Some f) w =
     (Inr (Some (fromPoints sp sp)),
      upd_editor e updateBackMarkers
        (upd_editor e (session_highlight None)
          ((upd_editor e (moveCursorToPosition sp)
              (w\<lparr>prevNeedle := Some [], options := (options w)\<lparr>needle := Some []\<rparr>\<rparr>))
             \<lparr>currentPos := Some sp\<rparr>)))"
  using assms
  by (simp add: highlightAndFindWithNeedle_def cancelSearch_def upd_editor_def Let_def)

text \<open>With a non-empty \<open>q\<close> and no match.\<close>

lemma hf_not_found:
  assumes "editor w = Some e"
    and "f w (or_empty (needle (options w))) = q" and "q \<noteq> []"
    and "find_fn (editors w e) ((options w)\<lparr>needle := Some q, start := currentPos w\<rparr>)
           = (None, r)"
  shows "highlightAndFindWithNeedle find_fn m (Some f) w =
     (Inr None,
      message (isearch_msg ((options w)\<lparr>needle := Some q\<rparr>) @ '' (not found)'')
        (w\<lparr>options := (options w)\<lparr>needle := Some q, start := currentPos w, re := r\<rparr>\<rparr>))"
  using assms
  by (simp add: highlightAndFindWithNeedle_def Let_def isearch_msg_def)

text \<open>With a non-empty \<open>q\<close> and a match \<open>f0\<close>.\<close>

lemma hf_found:
  assumes "editor w = Some e"
    and "f w (or_empty (needle (options w))) = q" and "q \<noteq> []"
    and "find_fn (editors w e) ((options w)\<lparr>needle := Some q, start := currentPos w\<rparr>)
           = (Some f0, r)"
    and "found = (if backwards (options w) then fromPoints (range_end f0) (range_start f0)
                  else f0)"
  shows "highlightAndFindWithNeedle find_fn m (Some f) w =
     (Inr (Some found),
      message (isearch_msg ((options w)\<lparr>needle := Some q\<rparr>))
        (upd_editor e (\<lambda>ed. updateBackMarkers (session_highlight r
                         (moveCursorToPosition (range_end found) ed)))
           (w\<lparr>options := (options w)\<lparr>needle := Some q, start := currentPos w, re := r\<rparr>,
              currentPos := (if m then Some (range_end found) else currentPos w)\<rparr>)))"
  using assms
  by (simp add: highlightAndFindWithNeedle_def Let_def isearch_msg_def upd_editor_def)

subsection \<open>The callers of \<^verbatim>\<open>highlightAndFindWithNeedle\<close>\<close>

lemma removeChar_transform:
  "(if length n > 0 then take (length n - 1) n else n) = butlast n"
  by (simp add: butlast_conv_take)

text \<open>With an editor attached, \<^verbatim>\<open>next\<close> is the search with \<open>moveToNext\<close>, run after the
  direction and the anchor have been set.\<close>

lemma next_search_hf:
  assumes "editor w = Some e"
  shows "next_search find_fn opts w =
     highlightAndFindWithNeedle find_fn True
       (Some (\<lambda>this n. if get_useCurrentOrPrevSearch opts \<and> length n = 0
                         then or_empty (prevNeedle this) else n))
       (w\<lparr>options := (options w)\<lparr>backwards := get_backwards opts\<rparr>,
          currentPos := Some (cursor (editors w e))\<rparr>)"
  using assms by (simp add: next_search_def Let_def getCursorPosition_def)

text \<open>A typing edit is the search without \<open>moveToNext\<close>, with \<open>q\<close> the needle the update
  function gives.\<close>

lemma typing_call:
  assumes "(call = addChar find_fn c \<and> q = or_empty (needle (options w)) @ c) \<or>
           (call = removeChar find_fn \<and> q = butlast (or_empty (needle (options w))))"
  obtains f where "call w = highlightAndFindWithNeedle find_fn False (Some f) w"
    and "f w (or_empty (needle (options w))) = q"
  using assms
proof (elim disjE conjE)
  assume "call = addChar find_fn c" and "q = or_empty (needle (options w)) @ c"
  then show ?thesis
    by (intro that [of "\<lambda>this needle. needle @ c"]) (simp_all add: addChar_def)
next
  assume "call = removeChar find_fn" and "q = butlast (or_empty (needle (options w)))"
  then show ?thesis
    by (intro that [of "\<lambda>this needle. if length needle > 0
                          then take (length needle - 1) needle else needle"])
       (simp_all only: removeChar_def removeChar_transform)
qed

text \<open>Any of the three calls is the search run on \<open>w0\<close>: the state itself for a typing
  edit, the state with direction and anchor set for \<^verbatim>\<open>next\<close>.\<close>

lemma search_call:
  assumes "editor w = Some e"
    and "(call = addChar find_fn c \<and> q = or_empty (needle (options w)) @ c \<and> w0 = w) \<or>
         (call = removeChar find_fn \<and> q = butlast (or_empty (needle (options w))) \<and> w0 = w) \<or>
         (call = next_search find_fn opts \<and>
          q = (if get_useCurrentOrPrevSearch opts \<and> or_empty (needle (options w)) = []
               then or_empty (prevNeedle w) else or_empty (needle (options w))) \<and>
          w0 = w\<lparr>options := (options w)\<lparr>backwards := get_backwards opts\<rparr>,
                 currentPos := Some (cursor (editors w e))\<rparr>)"
  obtains m f where "call w = highlightAndFindWithNeedle find_fn m (Some f) w0"
    and "f w0 (or_empty (needle (options w0))) = q"
    and "editor w0 = Some e" and "startPos w0 = startPos w" and "editors w0 = editors w"
  using assms(2)
proof (elim disjE conjE)
  assume "call = addChar find_fn c" and "q = or_empty (needle (options w)) @ c" and "w0 = w"
  then show ?thesis
    using assms(1)
    by (intro that [of False "\<lambda>this needle. needle @ c"]) (simp_all add: addChar_def)
next
  assume "call = removeChar find_fn" and "q = butlast (or_empty (needle (options w)))"
    and "w0 = w"
  then show ?thesis
    using assms(1)
    by (intro that [of False "\<lambda>this needle. if length needle > 0
                          then take (length needle - 1) needle else needle"])
       (simp_all only: removeChar_def removeChar_transform)
next
  assume "call = next_search find_fn opts"
    and "q = (if get_useCurrentOrPrevSearch opts \<and> or_empty (needle (options w)) = []
               then or_empty (prevNeedle w) else or_empty (needle (options w)))"
    and "w0 = w\<lparr>options := (options w)\<lparr>backwards := get_backwards opts\<rparr>,
                 currentPos := Some (cursor (editors w e))\<rparr>"
  then show ?thesis
    using assms(1)
    by (intro that [of True "\<lambda>this n. if get_useCurrentOrPrevSearch opts \<and> length n = 0
                         then or_empty (prevNeedle this) else n"])
       (simp_all add: next_search_hf [OF assms(1)])
qed

subsection \<open>What each way through the search leaves\<close>

lemma hf_reset_frame:
  assumes "editor w = Some e" and "startPos w = Some sp"
    and "f w (or_empty (needle (options w))) = []"
  shows "case highlightAndFindWithNeedle find_fn m (Some f) w of
           (res, w') \<Rightarrow>
             (res, w') =
               (case cancelSearch True (w\<lparr>options := (options w)\<lparr>needle := Some []\<rparr>\<rparr>) of
                  (r, w'') \<Rightarrow> (map_sum id Some r, w'')) \<and>
             res = Inr (Some (fromPoints sp sp)) \<and>
             cursor (editors w' e) = sp \<and>
             currentPos w' = Some sp \<and>
             startPos w' = Some sp \<and>
             needle (options w') = Some [] \<and>
             prevNeedle w' = Some [] \<and>
             backwards (options w') = backwards (options w) \<and>
             editor w' = Some e"
  using assms
  by (simp add: hf_reset [where find_fn = find_fn and f = f, OF assms]
      cancelSearch_def upd_editor_def editor_defs Let_def)

lemma hf_not_found_frame:
  assumes "editor w = Some e"
    and "f w (or_empty (needle (options w))) = q" and "q \<noteq> []"
    and "find_fn (editors w e) ((options w)\<lparr>needle := Some q, start := currentPos w\<rparr>)
           = (None, r)"
  shows "case highlightAndFindWithNeedle find_fn m (Some f) w of
           (res, w') \<Rightarrow>
             res = Inr None \<and>
             cursor (editors w' e) = cursor (editors w e) \<and>
             currentPos w' = currentPos w \<and>
             highlight (editors w' e) = highlight (editors w e) \<and>
             needle (options w') = Some q \<and>
             status_text w' =
               Some ((if backwards (options w) then ''reverse-'' else []) @ ''isearch: '' @ q
                     @ '' (not found)'') \<and>
             w' = message (isearch_msg ((options w)\<lparr>needle := Some q\<rparr>) @ '' (not found)'')
                    (w\<lparr>options := (options w)
                          \<lparr>needle := Some q, start := currentPos w, re := r\<rparr>\<rparr>)"
  by (simp add: hf_not_found [where find_fn = find_fn and f = f, OF assms]
      isearch_msg_def needle_text_def)

lemma hf_found_frame:
  assumes "editor w = Some e"
    and "f w (or_empty (needle (options w))) = q" and "q \<noteq> []"
    and "find_fn (editors w e) ((options w)\<lparr>needle := Some q, start := currentPos w\<rparr>)
           = (Some f0, r)"
  shows "case highlightAndFindWithNeedle find_fn m (Some f) w of
           (res, w') \<Rightarrow>
             res = Inr (Some (if backwards (options w)
                              then fromPoints (range_end f0) (range_start f0) else f0)) \<and>
             cursor (editors w' e) =
               (if backwards (options w) then range_start f0 else range_end f0) \<and>
             currentPos w' =
               (if m then Some (if backwards (options w) then range_start f0 else range_end f0)
                else currentPos w) \<and>
             highlight (editors w' e) = r \<and>
             needle (options w') = Some q \<and>
             backwards (options w') = backwards (options w) \<and>
             start (options w') = currentPos w"
  by (simp add: hf_found [where find_fn = find_fn and f = f, OF assms refl]
      upd_editor_def editor_defs fromPoints_def)

subsection \<open>The sample runs, evaluated\<close>

lemma s_active_val:
  "s_active =
     \<lparr>editor = Some 0, startPos = Some (p0 0), currentPos = Some (p0 0), prevNeedle = None,
      options = \<lparr>wrap = False, skipCurrent = False, needle = Some [], backwards = False,
                 start = None, re = None\<rparr>,
      editors = (\<lambda>_. ed0)
        (0 := ed0\<lparr>clearSelection_calls := 1, handlers := [ISearchKbd, HostHandler 0],
                   cmdLine := Some ''isearch: ''\<rparr>),
      console = []\<rparr>"
  by (simp add: s_active_def s_new_def model_defs eval_nat_numeral)

lemma s_a_val:
  "s_a =
     \<lparr>editor = Some 0, startPos = Some (p0 0), currentPos = Some (p0 0), prevNeedle = None,
      options = \<lparr>wrap = False, skipCurrent = False, needle = Some ''a'', backwards = False,
                 start = Some (p0 0), re = Some ''a''\<rparr>,
      editors = (\<lambda>_. ed0)
        (0 := ed0\<lparr>cursor := p0 1, clearSelection_calls := 1, highlight := Some ''a'',
                   backMarker_updates := 1, handlers := [ISearchKbd, HostHandler 0],
                   cmdLine := Some ''isearch: a''\<rparr>),
      console = []\<rparr>"
  unfolding s_a_def s_active_val
  by (simp add: model_defs eval_nat_numeral)

lemma s_ab_val:
  "s_ab =
     \<lparr>editor = Some 0, startPos = Some (p0 0), currentPos = Some (p0 0), prevNeedle = None,
      options = \<lparr>wrap = False, skipCurrent = False, needle = Some ''ab'', backwards = False,
                 start = Some (p0 0), re = Some ''ab''\<rparr>,
      editors = (\<lambda>_. ed0)
        (0 := ed0\<lparr>cursor := p0 2, clearSelection_calls := 1, highlight := Some ''ab'',
                   backMarker_updates := 2, handlers := [ISearchKbd, HostHandler 0],
                   cmdLine := Some ''isearch: ab''\<rparr>),
      console = []\<rparr>"
  unfolding s_ab_def s_a_val
  by (simp add: model_defs eval_nat_numeral)

lemma s_ax_val:
  "s_ax =
     \<lparr>editor = Some 0, startPos = Some (p0 0), currentPos = Some (p0 0), prevNeedle = None,
      options = \<lparr>wrap = False, skipCurrent = False, needle = Some ''ax'', backwards = False,
                 start = Some (p0 0), re = Some ''ax''\<rparr>,
      editors = (\<lambda>_. ed0)
        (0 := ed0\<lparr>cursor := p0 1, clearSelection_calls := 1, highlight := Some ''a'',
                   backMarker_updates := 1, handlers := [ISearchKbd, HostHandler 0],
                   cmdLine := Some ''isearch: ax (not found)''\<rparr>),
      console = []\<rparr>"
  unfolding s_ax_def s_a_val
  by (simp add: model_defs eval_nat_numeral)

lemma s_next_val:
  "s_next =
     \<lparr>editor = Some 0, startPos = Some (p0 0), currentPos = Some (p0 5), prevNeedle = None,
      options = \<lparr>wrap = False, skipCurrent = False, needle = Some ''ab'', backwards = False,
                 start = Some (p0 2), re = Some ''ab''\<rparr>,
      editors = (\<lambda>_. ed0)
        (0 := ed0\<lparr>cursor := p0 5, clearSelection_calls := 1, highlight := Some ''ab'',
                   backMarker_updates := 3, handlers := [ISearchKbd, HostHandler 0],
                   cmdLine := Some ''isearch: ab''\<rparr>),
      console = []\<rparr>"
  unfolding s_next_def s_ab_val
  by (simp add: model_defs eval_nat_numeral)

lemma s_off_val:
  "s_off =
     \<lparr>editor = Some 0, startPos = Some (p0 0), currentPos = Some (p0 0),
      prevNeedle = Some ''ab'',
      options = \<lparr>wrap = False, skipCurrent = False, needle = Some [], backwards = False,
                 start = Some (p0 0), re = Some ''ab''\<rparr>,
      editors = (\<lambda>_. ed0)
        (0 := ed0\<lparr>cursor := p0 0, clearSelection_calls := 1, highlight := None,
                   backMarker_updates := 3, handlers := [HostHandler 0],
                   cmdLine := Some []\<rparr>),
      console = []\<rparr>"
  unfolding s_off_def s_ab_val
  by (simp add: model_defs eval_nat_numeral)

lemma s_again_val:
  "s_again =
     \<lparr>editor = Some 0, startPos = Some (p0 2), currentPos = Some (p0 2),
      prevNeedle = Some ''ab'',
      options = \<lparr>wrap = False, skipCurrent = False, needle = Some [], backwards = False,
                 start = Some (p0 0), re = Some ''ab''\<rparr>,
      editors = (\<lambda>_. ed0)
        (0 := ed0\<lparr>cursor := p0 2, clearSelection_calls := 2, highlight := None,
                   backMarker_updates := 3, handlers := [ISearchKbd, HostHandler 0],
                   cmdLine := Some ''isearch: ''\<rparr>),
      console = []\<rparr>"
  unfolding s_again_def s_ab_val
  by (simp add: model_defs eval_nat_numeral)

section \<open>The claims\<close>

subsection \<open>C1: a search that finds nothing\<close>

text \<open>
  C1. With an editor attached, when \<^verbatim>\<open>addChar\<close> or \<^verbatim>\<open>removeChar\<close> gives a non-empty needle
  \<open>q\<close> for which \<^verbatim>\<open>find\<close> returns no match, the call returns nothing and leaves the
  editor's cursor, the anchor \<^verbatim>\<open>$currentPos\<close> and the editor's highlight as they were. The
  state it leaves is the state before with the needle \<open>q\<close> (and, in the options handed to
  \<^verbatim>\<open>find\<close>, the start and the pattern of this search) and the status message, which is
  \<^verbatim>\<open>isearch: \<close> and \<open>q\<close>, after \<^verbatim>\<open>reverse-\<close> when searching backwards, and ends with
  \<^verbatim>\<open> (not found)\<close>.
\<close>

theorem no_match_keeps_cursor_anchor_highlight:
  assumes "editor w = Some e"
    and "(call = addChar find_fn c \<and> q = or_empty (needle (options w)) @ c) \<or>
         (call = removeChar find_fn \<and> q = butlast (or_empty (needle (options w))))"
    and "q \<noteq> []"
    and "find_fn (editors w e) ((options w)\<lparr>needle := Some q, start := currentPos w\<rparr>)
           = (None, r)"
  shows "case call w of
           (res, w') \<Rightarrow>
             res = Inr None \<and>
             cursor (editors w' e) = cursor (editors w e) \<and>
             currentPos w' = currentPos w \<and>
             highlight (editors w' e) = highlight (editors w e) \<and>
             needle (options w') = Some q \<and>
             status_text w' =
               Some ((if backwards (options w) then ''reverse-'' else []) @ ''isearch: '' @ q
                     @ '' (not found)'') \<and>
             w' = message (isearch_msg ((options w)\<lparr>needle := Some q\<rparr>) @ '' (not found)'')
                    (w\<lparr>options := (options w)
                          \<lparr>needle := Some q, start := currentPos w, re := r\<rparr>\<rparr>)"
proof -
  from assms(2) obtain f
    where c: "call w = highlightAndFindWithNeedle find_fn False (Some f) w"
      and f: "f w (or_empty (needle (options w))) = q"
    by (rule typing_call)
  show ?thesis
    unfolding c
    by (rule hf_not_found_frame [where find_fn = find_fn and f = f and w = w,
          OF assms(1) f assms(3) assms(4)])
qed

text \<open>On the sample buffer, with \<^verbatim>\<open>a\<close> found at column 0 and the cursor behind it, typing
  \<^verbatim>\<open>x\<close> finds nothing: cursor, anchor and the highlight of \<^verbatim>\<open>a\<close> stay.\<close>

theorem no_match_keeps_cursor_anchor_highlight_witness:
  "editor s_a = Some 0 \<and> ''ax'' \<noteq> [] \<and>
   sample_find (editors s_a 0) ((options s_a)\<lparr>needle := Some ''ax'', start := currentPos s_a\<rparr>)
     = (None, Some ''ax'') \<and>
   (case addChar sample_find ''x'' s_a of
      (res, w') \<Rightarrow>
        res = Inr None \<and> cursor (editors w' 0) = p0 1 \<and> currentPos w' = Some (p0 0) \<and>
        highlight (editors w' 0) = Some ''a'' \<and> needle (options w') = Some ''ax'' \<and>
        status_text w' = Some ''isearch: ax (not found)'')"
proof -
  have h1: "editor s_a = Some 0"
    by (simp add: s_a_val)
  have h2: "(addChar sample_find ''x'' = addChar sample_find ''x'' \<and>
             ''ax'' = or_empty (needle (options s_a)) @ ''x'') \<or>
            (addChar sample_find ''x'' = removeChar sample_find \<and>
             ''ax'' = butlast (or_empty (needle (options s_a))))"
    by (simp add: s_a_val or_empty_def)
  have h3: "''ax'' \<noteq> []"
    by simp
  have h4: "sample_find (editors s_a 0)
              ((options s_a)\<lparr>needle := Some ''ax'', start := currentPos s_a\<rparr>)
            = (None, Some ''ax'')"
    by (simp add: s_a_val sample_find_def ed0_def p0_def)
  have v: "cursor (editors s_a 0) = p0 1" "currentPos s_a = Some (p0 0)"
    "highlight (editors s_a 0) = Some ''a''" "backwards (options s_a) = False"
    by (simp_all add: s_a_val)
  from no_match_keeps_cursor_anchor_highlight [OF h1 h2 h3 h4] show ?thesis
    using h1 h4 v by (simp split: prod.splits)
qed

subsection \<open>C2: when the anchor moves\<close>

text \<open>
  C2, as stated, lets the anchor \<^verbatim>\<open>$currentPos\<close> move only when \<^verbatim>\<open>next\<close> succeeds or
  \<^verbatim>\<open>cancelSearch\<close> resets. On the sample buffer, with the needle \<^verbatim>\<open>ax\<close> not found, the
  anchor at column 0 and the cursor at column 1, \<^verbatim>\<open>next\<close> finds nothing, returns nothing,
  and has moved the anchor to column 1: it sets the anchor to the cursor before it
  searches.
\<close>

theorem failed_next_moves_anchor:
  "editor s_ax = Some 0 \<and> currentPos s_ax = Some (p0 0) \<and>
   fst (next_search sample_find None s_ax) = Inr None \<and>
   currentPos (snd (next_search sample_find None s_ax)) = Some (p0 1)"
  unfolding s_ax_val
  by (simp add: model_defs eval_nat_numeral)

text \<open>
  C2, amended. With an editor attached: \<^verbatim>\<open>addChar\<close> and \<^verbatim>\<open>removeChar\<close> that give a
  non-empty needle leave the anchor \<^verbatim>\<open>$currentPos\<close> unchanged. \<^verbatim>\<open>next\<close> with a non-empty
  needle always sets the anchor: to the end of the match as returned (exchanged endpoints
  when backwards) when the search succeeds, and to the position the editor's cursor had
  before the call when it finds nothing. \<^verbatim>\<open>cancelSearch(true)\<close> sets it to \<^verbatim>\<open>$startPos\<close>;
  \<^verbatim>\<open>cancelSearch(false)\<close> leaves it.
\<close>

theorem anchor_moves:
  assumes "editor w = Some e"
  shows "(((call = addChar find_fn c \<and> q = or_empty (needle (options w)) @ c) \<or>
           (call = removeChar find_fn \<and> q = butlast (or_empty (needle (options w))))) \<and>
          q \<noteq> [] \<longrightarrow>
          currentPos (snd (call w)) = currentPos w) \<and>
         (qn = (if get_useCurrentOrPrevSearch opts \<and> or_empty (needle (options w)) = []
                then or_empty (prevNeedle w) else or_empty (needle (options w))) \<and>
          qn \<noteq> [] \<and>
          find_fn (editors w e)
            ((options w)\<lparr>backwards := get_backwards opts, needle := Some qn,
                          start := Some (cursor (editors w e))\<rparr>) = (fr, r) \<longrightarrow>
          currentPos (snd (next_search find_fn opts w)) =
            Some (case fr of
                    None \<Rightarrow> cursor (editors w e)
                  | Some f0 \<Rightarrow> if get_backwards opts then range_start f0 else range_end f0)) \<and>
         (startPos w = Some sp \<longrightarrow> currentPos (snd (cancelSearch True w)) = Some sp) \<and>
         currentPos (snd (cancelSearch False w)) = currentPos w"
proof (intro conjI impI)
  assume a: "((call = addChar find_fn c \<and> q = or_empty (needle (options w)) @ c) \<or>
              (call = removeChar find_fn \<and> q = butlast (or_empty (needle (options w))))) \<and>
             q \<noteq> []"
  then obtain f
    where c: "call w = highlightAndFindWithNeedle find_fn False (Some f) w"
      and f: "f w (or_empty (needle (options w))) = q"
    by (elim conjE typing_call)
  from a have q: "q \<noteq> []"
    by blast
  obtain fr1 r1
    where fd: "find_fn (editors w e) ((options w)\<lparr>needle := Some q, start := currentPos w\<rparr>)
                 = (fr1, r1)"
    by (cases "find_fn (editors w e) ((options w)\<lparr>needle := Some q, start := currentPos w\<rparr>)")
  show "currentPos (snd (call w)) = currentPos w"
  proof (cases fr1)
    case None
    from hf_not_found_frame [where find_fn = find_fn and f = f and w = w and m = False,
        OF assms f q fd [unfolded None]]
    show ?thesis
      unfolding c by (simp split: prod.splits)
  next
    case (Some f0)
    from hf_found_frame [where find_fn = find_fn and f = f and w = w and m = False,
        OF assms f q fd [unfolded Some]]
    show ?thesis
      unfolding c by (simp split: prod.splits)
  qed
next
  let ?w0 = "w\<lparr>options := (options w)\<lparr>backwards := get_backwards opts\<rparr>,
               currentPos := Some (cursor (editors w e))\<rparr>"
  let ?f = "\<lambda>this n. if get_useCurrentOrPrevSearch opts \<and> length n = 0
                       then or_empty (prevNeedle this) else n"
  assume a: "qn = (if get_useCurrentOrPrevSearch opts \<and> or_empty (needle (options w)) = []
                then or_empty (prevNeedle w) else or_empty (needle (options w))) \<and>
          qn \<noteq> [] \<and>
          find_fn (editors w e)
            ((options w)\<lparr>backwards := get_backwards opts, needle := Some qn,
                          start := Some (cursor (editors w e))\<rparr>) = (fr, r)"
  from a
  have a1: "qn = (if get_useCurrentOrPrevSearch opts \<and> or_empty (needle (options w)) = []
                  then or_empty (prevNeedle w) else or_empty (needle (options w)))"
    and q: "qn \<noteq> []"
    and a3: "find_fn (editors w e)
               ((options w)\<lparr>backwards := get_backwards opts, needle := Some qn,
                             start := Some (cursor (editors w e))\<rparr>) = (fr, r)"
    by blast+
  have e0: "editor ?w0 = Some e"
    using assms by simp
  have f: "?f ?w0 (or_empty (needle (options ?w0))) = qn"
    unfolding a1 by simp
  from a3 have fd: "find_fn (editors ?w0 e)
                     ((options ?w0)\<lparr>needle := Some qn, start := currentPos ?w0\<rparr>) = (fr, r)"
    by simp
  show "currentPos (snd (next_search find_fn opts w)) =
          Some (case fr of
                  None \<Rightarrow> cursor (editors w e)
                | Some f0 \<Rightarrow> if get_backwards opts then range_start f0 else range_end f0)"
  proof (cases fr)
    case None
    from hf_not_found_frame [where find_fn = find_fn and f = ?f and w = ?w0 and m = True,
        OF e0 f q fd [unfolded None]]
    show ?thesis
      unfolding next_search_hf [OF assms] None by (simp split: prod.splits)
  next
    case (Some f0)
    from hf_found_frame [where find_fn = find_fn and f = ?f and w = ?w0 and m = True,
        OF e0 f q fd [unfolded Some]]
    show ?thesis
      unfolding next_search_hf [OF assms] Some by (auto split: prod.splits)
  qed
next
  assume "startPos w = Some sp"
  then show "currentPos (snd (cancelSearch True w)) = Some sp"
    using assms by (simp add: cancelSearch_def upd_editor_def Let_def split: option.splits)
next
  show "currentPos (snd (cancelSearch False w)) = currentPos w"
    using assms by (simp add: cancelSearch_def upd_editor_def Let_def split: option.splits)
qed

text \<open>On the sample buffer after \<^verbatim>\<open>ab\<close> and one \<^verbatim>\<open>next\<close>, the anchor is at column 5 and the
  start position at column 0. Typing \<^verbatim>\<open>c\<close> keeps the anchor; another \<^verbatim>\<open>next\<close> finds \<^verbatim>\<open>ab\<close>
  at columns 6 to 8 and puts the anchor at 8; cancelling with reset puts it at 0,
  cancelling without keeps it.\<close>

theorem anchor_moves_witness:
  "editor s_next = Some 0 \<and> currentPos s_next = Some (p0 5) \<and> startPos s_next = Some (p0 0) \<and>
   ''abc'' = or_empty (needle (options s_next)) @ ''c'' \<and>
   sample_find (editors s_next 0)
     ((options s_next)\<lparr>backwards := False, needle := Some ''ab'', start := Some (p0 5)\<rparr>)
     = (Some (fromPoints (p0 6) (p0 8)), Some ''ab'') \<and>
   currentPos (snd (addChar sample_find ''c'' s_next)) = Some (p0 5) \<and>
   currentPos (snd (next_search sample_find None s_next)) = Some (p0 8) \<and>
   currentPos (snd (cancelSearch True s_next)) = Some (p0 0) \<and>
   currentPos (snd (cancelSearch False s_next)) = Some (p0 5)"
proof -
  have h: "editor s_next = Some 0"
    by (simp add: s_next_val)
  have v: "currentPos s_next = Some (p0 5)" "startPos s_next = Some (p0 0)"
    "or_empty (needle (options s_next)) = ''ab''" "cursor (editors s_next 0) = p0 5"
    by (simp_all add: s_next_val or_empty_def)
  have fd: "sample_find (editors s_next 0)
              ((options s_next)\<lparr>backwards := False, needle := Some ''ab'',
                                 start := Some (p0 5)\<rparr>)
            = (Some (fromPoints (p0 6) (p0 8)), Some ''ab'')"
    by (simp add: s_next_val sample_find_def ed0_def p0_def fromPoints_def eval_nat_numeral)
  from anchor_moves [OF h, where call = "addChar sample_find ''c''" and find_fn = sample_find
      and c = "''c''" and q = "''abc''" and qn = "''ab''" and opts = None
      and fr = "Some (fromPoints (p0 6) (p0 8))" and r = "Some ''ab''" and sp = "p0 0"]
  show ?thesis
    using h v fd by (simp add: get_backwards_def get_useCurrentOrPrevSearch_def fromPoints_def)
qed

subsection \<open>C3: an empty needle cancels with reset\<close>

text \<open>
  C3. With an editor attached, whenever the needle \<open>q\<close> that the update function of
  \<^verbatim>\<open>addChar\<close>, \<^verbatim>\<open>removeChar\<close> or \<^verbatim>\<open>next\<close> gives is empty, the call is
  \<^verbatim>\<open>cancelSearch(true)\<close> run with that empty needle stored: it returns the range
  \<^verbatim>\<open>cancelSearch\<close> returns, the empty range at \<^verbatim>\<open>$startPos\<close>, with the editor's cursor and
  the anchor back at \<^verbatim>\<open>$startPos\<close>. \<^verbatim>\<open>find\<close> plays no part: the finder does not occur in
  what the call equals.
\<close>

theorem empty_needle_cancels_with_reset:
  assumes "editor w = Some e" and "startPos w = Some sp"
    and "(call = addChar find_fn c \<and> q = or_empty (needle (options w)) @ c \<and> w0 = w) \<or>
         (call = removeChar find_fn \<and> q = butlast (or_empty (needle (options w))) \<and> w0 = w) \<or>
         (call = next_search find_fn opts \<and>
          q = (if get_useCurrentOrPrevSearch opts \<and> or_empty (needle (options w)) = []
               then or_empty (prevNeedle w) else or_empty (needle (options w))) \<and>
          w0 = w\<lparr>options := (options w)\<lparr>backwards := get_backwards opts\<rparr>,
                 currentPos := Some (cursor (editors w e))\<rparr>)"
    and "q = []"
  shows "case call w of
           (res, w') \<Rightarrow>
             (res, w') =
               (case cancelSearch True (w0\<lparr>options := (options w0)\<lparr>needle := Some []\<rparr>\<rparr>) of
                  (r, w'') \<Rightarrow> (map_sum id Some r, w'')) \<and>
             res = Inr (Some (fromPoints sp sp)) \<and>
             cursor (editors w' e) = sp \<and>
             currentPos w' = Some sp \<and>
             startPos w' = Some sp \<and>
             needle (options w') = Some []"
proof -
  from assms(1,3) obtain m f
    where c: "call w = highlightAndFindWithNeedle find_fn m (Some f) w0"
      and f: "f w0 (or_empty (needle (options w0))) = q"
      and e0: "editor w0 = Some e" and s0: "startPos w0 = startPos w"
    by (rule search_call)
  from f assms(4) have f0: "f w0 (or_empty (needle (options w0))) = []"
    by simp
  from s0 assms(2) have s1: "startPos w0 = Some sp"
    by simp
  from hf_reset_frame [where find_fn = find_fn and m = m and f = f and w = w0,
      OF e0 s1 f0]
  show ?thesis
    unfolding c by (simp split: prod.splits)
qed

text \<open>On the sample buffer, with the needle \<^verbatim>\<open>a\<close> and the cursor at column 1,
  \<^verbatim>\<open>removeChar\<close> empties the needle and brings the cursor back to column 0.\<close>

theorem empty_needle_cancels_with_reset_witness:
  "editor s_a = Some 0 \<and> startPos s_a = Some (p0 0) \<and>
   butlast (or_empty (needle (options s_a))) = [] \<and> cursor (editors s_a 0) = p0 1 \<and>
   (case removeChar sample_find s_a of
      (res, w') \<Rightarrow>
        (res, w') =
           (case cancelSearch True (s_a\<lparr>options := (options s_a)\<lparr>needle := Some []\<rparr>\<rparr>) of
              (r, w'') \<Rightarrow> (map_sum id Some r, w'')) \<and>
        res = Inr (Some (fromPoints (p0 0) (p0 0))) \<and> cursor (editors w' 0) = p0 0 \<and>
        currentPos w' = Some (p0 0) \<and> needle (options w') = Some [])"
proof -
  have h1: "editor s_a = Some 0" and h2: "startPos s_a = Some (p0 0)"
    by (simp_all add: s_a_val)
  have b: "butlast (or_empty (needle (options s_a))) = []"
    by (simp add: s_a_val or_empty_def)
  have h3: "(removeChar sample_find = addChar sample_find c \<and>
             [] = or_empty (needle (options s_a)) @ c \<and> s_a = s_a) \<or>
            (removeChar sample_find = removeChar sample_find \<and>
             [] = butlast (or_empty (needle (options s_a))) \<and> s_a = s_a) \<or>
            (removeChar sample_find = next_search sample_find opts \<and>
             [] = (if get_useCurrentOrPrevSearch opts \<and> or_empty (needle (options s_a)) = []
                   then or_empty (prevNeedle s_a) else or_empty (needle (options s_a))) \<and>
             s_a = s_a\<lparr>options := (options s_a)\<lparr>backwards := get_backwards opts\<rparr>,
                       currentPos := Some (cursor (editors s_a 0))\<rparr>)" for c opts
    using b by simp
  have v: "cursor (editors s_a 0) = p0 1"
    by (simp add: s_a_val)
  from empty_needle_cancels_with_reset [OF h1 h2 h3 refl] show ?thesis
    using h1 h2 b v by (simp split: prod.splits)
qed

subsection \<open>C4: calls without a session\<close>

text \<open>
  C4, as stated, makes \<^verbatim>\<open>addChar\<close>, \<^verbatim>\<open>removeChar\<close> and \<^verbatim>\<open>next\<close> do nothing, return nothing
  and never throw when no session is active, before any activation and after
  \<^verbatim>\<open>deactivate\<close>. On a new object \<^verbatim>\<open>next\<close> throws a \<^verbatim>\<open>TypeError\<close>. And after the \<^verbatim>\<open>ab\<close>
  search on the sample buffer was deactivated with reset, the handler is off the
  editor's stack but the object still holds the editor: \<^verbatim>\<open>addChar\<close> searches, returns the
  match of \<^verbatim>\<open>a\<close>, moves the cursor from column 0 to column 1 and stores the needle.
\<close>

theorem calls_without_session:
  "editor s_new = None \<and> fst (next_search sample_find None s_new) = Inl TypeError \<and>
   ISearchKbd \<notin> set (handlers (editors s_off 0)) \<and> cursor (editors s_off 0) = p0 0 \<and>
   needle (options s_off) = Some [] \<and>
   fst (addChar sample_find ''a'' s_off) = Inr (Some (fromPoints (p0 0) (p0 1))) \<and>
   cursor (editors (snd (addChar sample_find ''a'' s_off)) 0) = p0 1 \<and>
   needle (options (snd (addChar sample_find ''a'' s_off))) = Some ''a''"
  unfolding s_off_val
  by (simp add: s_new_def model_defs eval_nat_numeral)

text \<open>
  C4, amended. The guard is on the editor the object holds. On an object that holds none
  (none was ever given to \<^verbatim>\<open>activate\<close>), \<^verbatim>\<open>addChar\<close> and \<^verbatim>\<open>removeChar\<close> return \<^verbatim>\<open>null\<close>,
  throw nothing and leave the state as it is. \<^verbatim>\<open>deactivate\<close> does not let go of the editor,
  so after it the guard does not stop the calls.
\<close>

theorem guard_is_the_editor_held:
  "(editor w = None \<longrightarrow>
      addChar find_fn c w = (Inr None, w) \<and> removeChar find_fn w = (Inr None, w)) \<and>
   editor (snd (deactivate reset w)) = editor w"
  by (simp add: addChar_def removeChar_def highlightAndFindWithNeedle_def deactivate_def
      cancelSearch_def upd_editor_def Let_def split: option.splits)

theorem guard_is_the_editor_held_witness:
  "editor s_new = None \<and> addChar sample_find ''a'' s_new = (Inr None, s_new) \<and>
   removeChar sample_find s_new = (Inr None, s_new) \<and>
   editor (snd (deactivate True s_new)) = None"
proof -
  have h: "editor s_new = None"
    by (simp add: s_new_def IncrementalSearch_def)
  from guard_is_the_editor_held [of s_new sample_find "''a''" True] show ?thesis
    using h by simp
qed

subsection \<open>C5: the match of a backward search is reversed\<close>

text \<open>
  C5. With an editor attached, when the search of \<^verbatim>\<open>addChar\<close>, \<^verbatim>\<open>removeChar\<close> or \<^verbatim>\<open>next\<close>
  (non-empty needle \<open>q\<close>) succeeds with the match \<open>f0\<close> from \<^verbatim>\<open>find\<close> while the direction
  is backwards, the call returns \<open>f0\<close> with its endpoints exchanged and the editor's cursor
  is at the end of the exchanged range, the start of \<open>f0\<close>; forwards it returns \<open>f0\<close> as it
  is, with the cursor at its end. The direction is the one the search runs with: the
  stored one for a typing edit, the one \<^verbatim>\<open>next\<close> has just set from its argument.
\<close>

theorem backward_match_is_reversed:
  assumes "editor w = Some e"
    and "(call = addChar find_fn c \<and> q = or_empty (needle (options w)) @ c \<and> w0 = w) \<or>
         (call = removeChar find_fn \<and> q = butlast (or_empty (needle (options w))) \<and> w0 = w) \<or>
         (call = next_search find_fn opts \<and>
          q = (if get_useCurrentOrPrevSearch opts \<and> or_empty (needle (options w)) = []
               then or_empty (prevNeedle w) else or_empty (needle (options w))) \<and>
          w0 = w\<lparr>options := (options w)\<lparr>backwards := get_backwards opts\<rparr>,
                 currentPos := Some (cursor (editors w e))\<rparr>)"
    and "q \<noteq> []"
    and "find_fn (editors w e) ((options w0)\<lparr>needle := Some q, start := currentPos w0\<rparr>)
           = (Some f0, r)"
  shows "case call w of
           (res, w') \<Rightarrow>
             res = Inr (Some (if backwards (options w0)
                              then fromPoints (range_end f0) (range_start f0) else f0)) \<and>
             cursor (editors w' e) =
               (if backwards (options w0) then range_start f0 else range_end f0)"
proof -
  from assms(1,2) obtain m f
    where c: "call w = highlightAndFindWithNeedle find_fn m (Some f) w0"
      and f: "f w0 (or_empty (needle (options w0))) = q"
      and e0: "editor w0 = Some e" and ed: "editors w0 = editors w"
    by (rule search_call)
  from assms(4) ed
  have fd: "find_fn (editors w0 e) ((options w0)\<lparr>needle := Some q, start := currentPos w0\<rparr>)
              = (Some f0, r)"
    by simp
  from hf_found_frame [where find_fn = find_fn and m = m and f = f and w = w0,
      OF e0 f assms(3) fd]
  show ?thesis
    unfolding c by (simp add: ed split: prod.splits)
qed

text \<open>On the sample buffer, with \<^verbatim>\<open>ab\<close> found and the cursor at column 2, \<^verbatim>\<open>next\<close>
  backwards finds the same \<^verbatim>\<open>ab\<close>, columns 0 to 2, returns it as the range from 2 to 0 and
  puts the cursor at column 0.\<close>

theorem backward_match_is_reversed_witness:
  "editor s_ab = Some 0 \<and> ''ab'' \<noteq> [] \<and>
   sample_find (editors s_ab 0)
     ((options s_ab)\<lparr>backwards := True, needle := Some ''ab'', start := Some (p0 2)\<rparr>)
     = (Some (fromPoints (p0 0) (p0 2)), Some ''ab'') \<and>
   (case next_search sample_find
           (Some \<lparr>opt_backwards = True, useCurrentOrPrevSearch = False\<rparr>) s_ab of
      (res, w') \<Rightarrow>
        res = Inr (Some (fromPoints (p0 2) (p0 0))) \<and> cursor (editors w' 0) = p0 0)"
proof -
  let ?opts = "Some \<lparr>opt_backwards = True, useCurrentOrPrevSearch = False\<rparr>"
  let ?w0 = "s_ab\<lparr>options := (options s_ab)\<lparr>backwards := get_backwards ?opts\<rparr>,
                  currentPos := Some (cursor (editors s_ab 0))\<rparr>"
  have h1: "editor s_ab = Some 0"
    by (simp add: s_ab_val)
  have h2: "(next_search sample_find ?opts = addChar sample_find c \<and>
             ''ab'' = or_empty (needle (options s_ab)) @ c \<and> ?w0 = s_ab) \<or>
            (next_search sample_find ?opts = removeChar sample_find \<and>
             ''ab'' = butlast (or_empty (needle (options s_ab))) \<and> ?w0 = s_ab) \<or>
            (next_search sample_find ?opts = next_search sample_find ?opts \<and>
             ''ab'' = (if get_useCurrentOrPrevSearch ?opts \<and>
                          or_empty (needle (options s_ab)) = []
                       then or_empty (prevNeedle s_ab) else or_empty (needle (options s_ab))) \<and>
             ?w0 = ?w0)" for c
    by (simp add: s_ab_val or_empty_def get_useCurrentOrPrevSearch_def)
  have h3: "''ab'' \<noteq> []"
    by simp
  have a: "(options ?w0)\<lparr>needle := Some ''ab'', start := currentPos ?w0\<rparr> =
           (options s_ab)\<lparr>backwards := True, needle := Some ''ab'', start := Some (p0 2)\<rparr>"
    by (simp add: s_ab_val get_backwards_def ed0_def)
  have h4: "sample_find (editors s_ab 0)
              ((options s_ab)\<lparr>backwards := True, needle := Some ''ab'', start := Some (p0 2)\<rparr>)
            = (Some (fromPoints (p0 0) (p0 2)), Some ''ab'')"
    by (simp add: s_ab_val sample_find_def ed0_def p0_def fromPoints_def)
  have b: "backwards (options ?w0) = True"
    by (simp add: get_backwards_def)
  from backward_match_is_reversed [OF h1 h2 h3 h4 [folded a]] show ?thesis
    using h1 h4 b by (simp add: fromPoints_def split: prod.splits)
qed

subsection \<open>C6: what \<^verbatim>\<open>next\<close> does\<close>

text \<open>
  C6, as stated, has the previous needle that \<^verbatim>\<open>next\<close> substitutes for an empty needle
  used for that call only, not kept as the stored needle. On the sample buffer, activated
  again after the \<^verbatim>\<open>ab\<close> search, the needle is empty and \<^verbatim>\<open>$prevNeedle\<close> is \<^verbatim>\<open>ab\<close>; after
  \<^verbatim>\<open>next\<close> with \<^verbatim>\<open>useCurrentOrPrevSearch\<close> the stored needle is \<^verbatim>\<open>ab\<close>.
\<close>

theorem substituted_needle_is_stored:
  "editor s_again = Some 0 \<and> needle (options s_again) = Some [] \<and>
   prevNeedle s_again = Some ''ab'' \<and>
   needle (options (snd (next_search sample_find
     (Some \<lparr>opt_backwards = False, useCurrentOrPrevSearch = True\<rparr>) s_again))) = Some ''ab''"
  unfolding s_again_val
  by (simp add: model_defs eval_nat_numeral)

text \<open>
  C6, amended. With an editor attached, \<^verbatim>\<open>next(options)\<close> sets the direction to
  \<^verbatim>\<open>options.backwards\<close> (false when omitted) and stores the needle \<open>q\<close> it works with: the
  stored needle, or, when that is empty and \<^verbatim>\<open>useCurrentOrPrevSearch\<close> is set,
  \<^verbatim>\<open>$prevNeedle\<close> (empty when there is none); the substitute stays the stored needle after
  the call. With \<open>q\<close> empty the call cancels with reset. Otherwise the search starts at the
  position of the editor's cursor, to which the anchor was set first, and runs with
  \<open>moveToNext\<close>: a match is returned (endpoints exchanged when backwards) with the cursor
  and the anchor at its end; without a match the call returns nothing, with the cursor
  where it was and the anchor there too.
\<close>

theorem next_search_effects:
  assumes "editor w = Some e" and "startPos w = Some sp"
    and "q = (if get_useCurrentOrPrevSearch opts \<and> or_empty (needle (options w)) = []
              then or_empty (prevNeedle w) else or_empty (needle (options w)))"
    and "find_fn (editors w e)
           ((options w)\<lparr>backwards := get_backwards opts, needle := Some q,
                         start := Some (cursor (editors w e))\<rparr>) = (fr, r)"
  shows "case next_search find_fn opts w of
           (res, w') \<Rightarrow>
             backwards (options w') = get_backwards opts \<and>
             needle (options w') = Some q \<and>
             (if q = []
              then res = Inr (Some (fromPoints sp sp)) \<and>
                   currentPos w' = Some sp \<and> cursor (editors w' e) = sp
              else start (options w') = Some (cursor (editors w e)) \<and>
                   (case fr of
                      None \<Rightarrow>
                        res = Inr None \<and>
                        currentPos w' = Some (cursor (editors w e)) \<and>
                        cursor (editors w' e) = cursor (editors w e)
                    | Some f0 \<Rightarrow>
                        res = Inr (Some (if get_backwards opts
                                         then fromPoints (range_end f0) (range_start f0)
                                         else f0)) \<and>
                        currentPos w' =
                          Some (if get_backwards opts then range_start f0 else range_end f0) \<and>
                        cursor (editors w' e) =
                          (if get_backwards opts then range_start f0 else range_end f0)))"
proof -
  let ?w0 = "w\<lparr>options := (options w)\<lparr>backwards := get_backwards opts\<rparr>,
               currentPos := Some (cursor (editors w e))\<rparr>"
  let ?f = "\<lambda>this n. if get_useCurrentOrPrevSearch opts \<and> length n = 0
                       then or_empty (prevNeedle this) else n"
  have e0: "editor ?w0 = Some e" and s0: "startPos ?w0 = Some sp"
    using assms(1,2) by simp_all
  have f: "?f ?w0 (or_empty (needle (options ?w0))) = q"
    unfolding assms(3) by simp
  from assms(4)
  have fd: "find_fn (editors ?w0 e)
              ((options ?w0)\<lparr>needle := Some q, start := currentPos ?w0\<rparr>) = (fr, r)"
    by simp
  show ?thesis
  proof (cases "q = []")
    case True
    from hf_reset_frame [where find_fn = find_fn and f = ?f and w = ?w0 and m = True,
        OF e0 s0 f [unfolded True]]
    show ?thesis
      unfolding next_search_hf [OF assms(1)] using True by (auto split: prod.splits)
  next
    case False
    show ?thesis
    proof (cases fr)
      case None
      from hf_not_found_frame [where find_fn = find_fn and f = ?f and w = ?w0 and m = True,
          OF e0 f False fd [unfolded None]]
      show ?thesis
        unfolding next_search_hf [OF assms(1)] None using False
        by (auto split: prod.splits)
    next
      case (Some f0)
      from hf_found_frame [where find_fn = find_fn and f = ?f and w = ?w0 and m = True,
          OF e0 f False fd [unfolded Some]]
      show ?thesis
        unfolding next_search_hf [OF assms(1)] Some using False
        by (auto split: prod.splits)
    qed
  qed
qed

text \<open>On the sample buffer, activated again after the \<^verbatim>\<open>ab\<close> search with the cursor at
  column 2: \<^verbatim>\<open>next\<close> with \<^verbatim>\<open>useCurrentOrPrevSearch\<close> works with \<^verbatim>\<open>ab\<close>, searches from column
  2, finds columns 3 to 5, and leaves cursor and anchor at 5 and the needle \<^verbatim>\<open>ab\<close>.\<close>

theorem next_search_effects_witness:
  "editor s_again = Some 0 \<and> startPos s_again = Some (p0 2) \<and>
   needle (options s_again) = Some [] \<and> prevNeedle s_again = Some ''ab'' \<and>
   sample_find (editors s_again 0)
     ((options s_again)\<lparr>backwards := False, needle := Some ''ab'', start := Some (p0 2)\<rparr>)
     = (Some (fromPoints (p0 3) (p0 5)), Some ''ab'') \<and>
   (case next_search sample_find
           (Some \<lparr>opt_backwards = False, useCurrentOrPrevSearch = True\<rparr>) s_again of
      (res, w') \<Rightarrow>
        backwards (options w') = False \<and> needle (options w') = Some ''ab'' \<and>
        start (options w') = Some (p0 2) \<and>
        res = Inr (Some (fromPoints (p0 3) (p0 5))) \<and>
        currentPos w' = Some (p0 5) \<and> cursor (editors w' 0) = p0 5)"
proof -
  let ?opts = "Some \<lparr>opt_backwards = False, useCurrentOrPrevSearch = True\<rparr>"
  have h1: "editor s_again = Some 0" and h2: "startPos s_again = Some (p0 2)"
    by (simp_all add: s_again_val)
  have v: "needle (options s_again) = Some []" "prevNeedle s_again = Some ''ab''"
    "cursor (editors s_again 0) = p0 2"
    by (simp_all add: s_again_val)
  have h3: "''ab'' = (if get_useCurrentOrPrevSearch ?opts \<and>
                         or_empty (needle (options s_again)) = []
                      then or_empty (prevNeedle s_again)
                      else or_empty (needle (options s_again)))"
    by (simp add: v or_empty_def get_useCurrentOrPrevSearch_def)
  have fd: "sample_find (editors s_again 0)
              ((options s_again)\<lparr>backwards := False, needle := Some ''ab'',
                                  start := Some (p0 2)\<rparr>)
            = (Some (fromPoints (p0 3) (p0 5)), Some ''ab'')"
    by (simp add: s_again_val sample_find_def ed0_def p0_def fromPoints_def eval_nat_numeral)
  have h4: "sample_find (editors s_again 0)
              ((options s_again)\<lparr>backwards := get_backwards ?opts, needle := Some ''ab'',
                                  start := Some (cursor (editors s_again 0))\<rparr>)
            = (Some (fromPoints (p0 3) (p0 5)), Some ''ab'')"
    using fd by (simp add: v get_backwards_def)
  from next_search_effects [where find_fn = sample_find and opts = ?opts and w = s_again,
      OF h1 h2 h3 h4]
  show ?thesis
    using h1 h2 v fd by (simp add: get_backwards_def fromPoints_def split: prod.splits)
qed

subsection \<open>C7: what \<^verbatim>\<open>cancelSearch\<close> does\<close>

text \<open>
  C7. On a session (an editor attached, start position and anchor set by \<^verbatim>\<open>activate\<close>),
  \<^verbatim>\<open>cancelSearch(reset)\<close> stores the current needle in \<^verbatim>\<open>$prevNeedle\<close> and makes the needle
  the empty string; with \<open>reset\<close> it also moves the editor's cursor to \<^verbatim>\<open>$startPos\<close> and
  sets the anchor \<^verbatim>\<open>$currentPos\<close> to \<^verbatim>\<open>$startPos\<close>; in both cases it clears the highlight
  and returns the range whose two endpoints are the anchor it leaves.
\<close>

theorem cancelSearch_effects:
  assumes "editor w = Some e" and "startPos w = Some sp" and "currentPos w = Some cp"
  shows "case cancelSearch reset w of
           (r, w') \<Rightarrow>
             r = Inr (fromPoints (if reset then sp else cp) (if reset then sp else cp)) \<and>
             prevNeedle w' = needle (options w) \<and>
             needle (options w') = Some [] \<and>
             currentPos w' = Some (if reset then sp else cp) \<and>
             startPos w' = Some sp \<and>
             cursor (editors w' e) = (if reset then sp else cursor (editors w e)) \<and>
             highlight (editors w' e) = None"
  using assms
  by (simp add: cancelSearch_def upd_editor_def editor_defs Let_def)

text \<open>After \<^verbatim>\<open>a\<close> was typed on the sample buffer the cursor is at column 1; cancelling
  with reset brings it back to column 0 and keeps \<^verbatim>\<open>a\<close> as the previous needle.\<close>

theorem cancelSearch_effects_witness:
  "editor s_a = Some 0 \<and> startPos s_a = Some (p0 0) \<and> currentPos s_a = Some (p0 0) \<and>
   cursor (editors s_a 0) = p0 1 \<and>
   (case cancelSearch True s_a of
      (r, w') \<Rightarrow>
        r = Inr (fromPoints (p0 0) (p0 0)) \<and> prevNeedle w' = Some ''a'' \<and>
        needle (options w') = Some [] \<and> currentPos w' = Some (p0 0) \<and>
        startPos w' = Some (p0 0) \<and> cursor (editors w' 0) = p0 0 \<and>
        highlight (editors w' 0) = None)"
proof -
  have h: "editor s_a = Some 0" "startPos s_a = Some (p0 0)" "currentPos s_a = Some (p0 0)"
    by (simp_all add: s_a_val)
  have c: "cursor (editors s_a 0) = p0 1" "needle (options s_a) = Some ''a''"
    by (simp_all add: s_a_val)
  from cancelSearch_effects [OF h, of True] show ?thesis
    using h c by simp
qed

subsection \<open>C8: \<^verbatim>\<open>activate\<close> on a live session\<close>

text \<open>
  C8, as stated, has \<^verbatim>\<open>activate\<close> on a live session deactivate it first or do nothing, so
  that start position and anchor are not overwritten. On the sample buffer with \<^verbatim>\<open>a\<close>
  typed, start position and anchor at column 0 and the cursor at column 1, a second
  \<^verbatim>\<open>activate\<close> puts start position and anchor at column 1 and drops the needle \<^verbatim>\<open>a\<close>
  without keeping it in \<^verbatim>\<open>$prevNeedle\<close>, as \<^verbatim>\<open>deactivate\<close> would have.
\<close>

theorem second_activate_overwrites:
  "editor s_a = Some 0 \<and> cursor (editors s_a 0) = p0 1 \<and>
   startPos s_a = Some (p0 0) \<and> currentPos s_a = Some (p0 0) \<and>
   needle (options s_a) = Some ''a'' \<and>
   startPos (activate 0 False s_a) = Some (p0 1) \<and>
   currentPos (activate 0 False s_a) = Some (p0 1) \<and>
   needle (options (activate 0 False s_a)) = Some [] \<and>
   prevNeedle (activate 0 False s_a) = None"
  unfolding s_a_val
  by (simp add: model_defs eval_nat_numeral)

text \<open>
  C8, amended. \<^verbatim>\<open>activate\<close> does not look for a live session: it neither deactivates one
  first nor returns without effect. In every state it attaches the editor, sets
  \<^verbatim>\<open>$startPos\<close> and the anchor \<^verbatim>\<open>$currentPos\<close> to the position of the editor's cursor, sets
  the direction, and empties the needle without storing it in \<^verbatim>\<open>$prevNeedle\<close>, which keeps
  its value. Nothing is said here about what the editor's handler stack holds afterwards.
\<close>

theorem activate_starts_over:
  "editor (activate e bw w) = Some e \<and>
   startPos (activate e bw w) = Some (cursor (editors w e)) \<and>
   currentPos (activate e bw w) = Some (cursor (editors w e)) \<and>
   needle (options (activate e bw w)) = Some [] \<and>
   backwards (options (activate e bw w)) = bw \<and>
   prevNeedle (activate e bw w) = prevNeedle w"
  by (simp add: activate_def selectionFix_def upd_editor_def editor_defs Let_def)

subsection \<open>C9: the selection on \<^verbatim>\<open>activate\<close>\<close>

text \<open>
  C9, as stated, has \<^verbatim>\<open>activate\<close> clear a selection that the editor reports as not empty
  when no mark is set. On an editor with such a selection and no mark, \<^verbatim>\<open>activate\<close> does
  not call \<^verbatim>\<open>clearSelection\<close> and the selection is still not empty.
\<close>

theorem nonempty_selection_is_kept:
  "\<not> selection_isEmpty (editors s_sel 0) \<and> \<not> emacsMark (editors s_sel 0) \<and>
   clearSelection_calls (editors s_sel 0) = 0 \<and>
   \<not> selection_isEmpty (editors (activate 0 False s_sel) 0) \<and>
   clearSelection_calls (editors (activate 0 False s_sel) 0) = 0"
  by (simp add: s_sel_def ed_sel_def model_defs)

text \<open>
  C9, amended. \<^verbatim>\<open>activate\<close> calls \<^verbatim>\<open>clearSelection\<close> (once) exactly when the editor reports
  an empty selection and no mark is set. A selection reported as not empty is left as it
  is, with or without a mark, and so is any selection while the mark is set.
\<close>

theorem activate_clears_only_empty_selection:
  "clearSelection_calls (editors (activate e bw w) e) =
     (if selection_isEmpty (editors w e) \<and> \<not> emacsMark (editors w e)
      then Suc (clearSelection_calls (editors w e))
      else clearSelection_calls (editors w e)) \<and>
   selection_isEmpty (editors (activate e bw w) e) = selection_isEmpty (editors w e) \<and>
   emacsMark (editors (activate e bw w) e) = emacsMark (editors w e)"
  by (simp add: activate_def selectionFix_def upd_editor_def editor_defs Let_def)

subsection \<open>C10: the reset path leaves an empty previous needle\<close>

text \<open>
  C10. With an editor attached, every call of \<^verbatim>\<open>addChar\<close>, \<^verbatim>\<open>removeChar\<close> or \<^verbatim>\<open>next\<close> whose
  needle \<open>q\<close> comes out empty (so \<^verbatim>\<open>removeChar\<close> on a needle that is empty already) takes
  the reset path, and \<^verbatim>\<open>cancelSearch\<close> there overwrites \<^verbatim>\<open>$prevNeedle\<close> with the needle
  stored at that moment, the empty string, whatever \<^verbatim>\<open>$prevNeedle\<close> held. A \<^verbatim>\<open>next\<close> with
  \<^verbatim>\<open>useCurrentOrPrevSearch\<close> that follows puts the empty string for the needle and takes
  the reset path again: it is \<^verbatim>\<open>cancelSearch(true)\<close>, returns the empty range at
  \<^verbatim>\<open>$startPos\<close>, and no finder occurs in what it equals.
\<close>

theorem reset_path_empties_prevNeedle:
  assumes "editor w = Some e" and "startPos w = Some sp"
    and "(call = addChar find_fn c \<and> q = or_empty (needle (options w)) @ c \<and> w0 = w) \<or>
         (call = removeChar find_fn \<and> q = butlast (or_empty (needle (options w))) \<and> w0 = w) \<or>
         (call = next_search find_fn opts \<and>
          q = (if get_useCurrentOrPrevSearch opts \<and> or_empty (needle (options w)) = []
               then or_empty (prevNeedle w) else or_empty (needle (options w))) \<and>
          w0 = w\<lparr>options := (options w)\<lparr>backwards := get_backwards opts\<rparr>,
                 currentPos := Some (cursor (editors w e))\<rparr>)"
    and "q = []"
  shows "case call w of
           (res1, w1) \<Rightarrow>
             prevNeedle w1 = Some [] \<and>
             needle (options w1) = Some [] \<and>
             (case next_search find_fn'
                     (Some \<lparr>opt_backwards = bw, useCurrentOrPrevSearch = True\<rparr>) w1 of
                (res2, w2) \<Rightarrow>
                  (res2, w2) =
                    (case cancelSearch True
                            (w1\<lparr>options := (options w1)\<lparr>backwards := bw\<rparr>,
                                currentPos := Some (cursor (editors w1 e))\<rparr>) of
                       (r, w'') \<Rightarrow> (map_sum id Some r, w'')) \<and>
                  res2 = Inr (Some (fromPoints sp sp)) \<and>
                  needle (options w2) = Some [] \<and>
                  prevNeedle w2 = Some [])"
proof -
  from assms(1,3) obtain m f
    where c: "call w = highlightAndFindWithNeedle find_fn m (Some f) w0"
      and f: "f w0 (or_empty (needle (options w0))) = q"
      and e0: "editor w0 = Some e" and s0: "startPos w0 = startPos w"
    by (rule search_call)
  obtain res1 w1 where r1: "call w = (res1, w1)"
    by (cases "call w")
  from f assms(4) have f0: "f w0 (or_empty (needle (options w0))) = []"
    by simp
  from s0 assms(2) have s1: "startPos w0 = Some sp"
    by simp
  from hf_reset_frame [where find_fn = find_fn and m = m and f = f and w = w0,
      OF e0 s1 f0] r1
  have w1: "prevNeedle w1 = Some []" "needle (options w1) = Some []"
    "editor w1 = Some e" "startPos w1 = Some sp"
    unfolding c by simp_all
  let ?opts = "Some \<lparr>opt_backwards = bw, useCurrentOrPrevSearch = True\<rparr>"
  let ?w1 = "w1\<lparr>options := (options w1)\<lparr>backwards := get_backwards ?opts\<rparr>,
                currentPos := Some (cursor (editors w1 e))\<rparr>"
  let ?f = "\<lambda>this n. if get_useCurrentOrPrevSearch ?opts \<and> length n = 0
                       then or_empty (prevNeedle this) else n"
  have e1: "editor ?w1 = Some e" and s2: "startPos ?w1 = Some sp"
    using w1 by simp_all
  have f1: "?f ?w1 (or_empty (needle (options ?w1))) = []"
    using w1 by (simp add: or_empty_def)
  have t: "?w1\<lparr>options := (options ?w1)\<lparr>needle := Some []\<rparr>\<rparr> =
           w1\<lparr>options := (options w1)\<lparr>backwards := bw\<rparr>,
              currentPos := Some (cursor (editors w1 e))\<rparr>"
    using w1(2) by (cases w1; cases "options w1") (simp add: get_backwards_def)
  note F = hf_reset_frame [where find_fn = find_fn' and m = True and f = ?f and w = ?w1,
      OF e1 s2 f1, unfolded t]
  have "case next_search find_fn' ?opts w1 of
          (res2, w2) \<Rightarrow>
            (res2, w2) =
              (case cancelSearch True
                      (w1\<lparr>options := (options w1)\<lparr>backwards := bw\<rparr>,
                          currentPos := Some (cursor (editors w1 e))\<rparr>) of
                 (r, w'') \<Rightarrow> (map_sum id Some r, w'')) \<and>
            res2 = Inr (Some (fromPoints sp sp)) \<and>
            needle (options w2) = Some [] \<and>
            prevNeedle w2 = Some []"
    unfolding next_search_hf [OF w1(3)]
    using F by (simp split: prod.splits)
  with w1 show ?thesis
    unfolding r1 by simp
qed

text \<open>On the sample buffer, after the \<^verbatim>\<open>ab\<close> search was deactivated and the object
  activated again, \<^verbatim>\<open>$prevNeedle\<close> is \<^verbatim>\<open>ab\<close> and the needle is empty. One \<^verbatim>\<open>removeChar\<close>
  replaces \<^verbatim>\<open>ab\<close> by the empty string, and the \<^verbatim>\<open>next\<close> that follows finds nothing to
  repeat.\<close>

theorem reset_path_empties_prevNeedle_witness:
  "editor s_again = Some 0 \<and> startPos s_again = Some (p0 2) \<and>
   prevNeedle s_again = Some ''ab'' \<and> butlast (or_empty (needle (options s_again))) = [] \<and>
   (case removeChar sample_find s_again of
      (res1, w1) \<Rightarrow>
        prevNeedle w1 = Some [] \<and>
        (case next_search sample_find
                (Some \<lparr>opt_backwards = False, useCurrentOrPrevSearch = True\<rparr>) w1 of
           (res2, w2) \<Rightarrow>
             res2 = Inr (Some (fromPoints (p0 2) (p0 2))) \<and> needle (options w2) = Some []))"
proof -
  have h1: "editor s_again = Some 0" and h2: "startPos s_again = Some (p0 2)"
    and p: "prevNeedle s_again = Some ''ab''"
    by (simp_all add: s_again_val)
  have b: "butlast (or_empty (needle (options s_again))) = []"
    by (simp add: s_again_val or_empty_def)
  have h3: "(removeChar sample_find = addChar sample_find c \<and>
             [] = or_empty (needle (options s_again)) @ c \<and> s_again = s_again) \<or>
            (removeChar sample_find = removeChar sample_find \<and>
             [] = butlast (or_empty (needle (options s_again))) \<and> s_again = s_again) \<or>
            (removeChar sample_find = next_search sample_find opts \<and>
             [] = (if get_useCurrentOrPrevSearch opts \<and>
                      or_empty (needle (options s_again)) = []
                   then or_empty (prevNeedle s_again)
                   else or_empty (needle (options s_again))) \<and>
             s_again = s_again\<lparr>options := (options s_again)\<lparr>backwards := get_backwards opts\<rparr>,
                               currentPos := Some (cursor (editors s_again 0))\<rparr>)" for c opts
    using b by simp
  from reset_path_empties_prevNeedle
      [where find_fn' = sample_find and bw = False, OF h1 h2 h3 refl] show ?thesis
    using h1 h2 p b by (simp split: prod.splits)
qed

end
